theory Spec2Isabelle
  imports Main "HOL-Library.AList"
begin

section \<open>The entity set of featuretools: data model\<close>

text \<open>
  The development follows \<^verbatim>\<open>featuretools/entityset/ww_entityset.py\<close>. An exception
  of the Python code is a value of \<open>error\<close>.
\<close>

datatype error =
  ValueError | TypeError | KeyError | StopIteration | AssertionError | AttributeError

text \<open>
  Modelled from the spec: the class \<^verbatim>\<open>Relationship\<close> (module
  \<^verbatim>\<open>featuretools.entityset.relationship\<close>) is imported by the source and not part of it.
  A relationship is the immutable tuple of its four identifying names, and two
  relationships are equal iff the four names agree. The accessors
  \<^verbatim>\<open>r.child_dataframe.ww.name\<close>, \<^verbatim>\<open>r.parent_dataframe.ww.name\<close> and
  \<^verbatim>\<open>r.parent_dataframe.ww.id\<close> read the name of the child and of the parent table.
\<close>

record relationship =
  parent_dataframe_id :: string
  parent_column_id :: string
  child_dataframe_id :: string
  child_column_id :: string

text \<open>
  The tables are dataframes with a Woodwork schema (\<^verbatim>\<open>df.ww\<close>); the dataframe engine
  and Woodwork are collaborators outside the source. A table keeps what the entity set
  reads and writes through them: the engine (\<^verbatim>\<open>isinstance(df, pd.DataFrame)\<close>),
  \<^verbatim>\<open>df.empty\<close>, whether a schema is present, \<^verbatim>\<open>ww.name\<close>, \<^verbatim>\<open>ww.index\<close>,
  \<^verbatim>\<open>ww.time_index\<close>, the columns, and the entry \<^verbatim>\<open>secondary_time_index\<close> of
  \<^verbatim>\<open>ww.metadata\<close>. A column keeps its pandas dtype (by name) and its semantic tags.

  Modelled from the spec: \<^verbatim>\<open>_check_time_type\<close> (module \<^verbatim>\<open>featuretools.utils.wrangle\<close>)
  and \<^verbatim>\<open>DEFAULT_DTYPE_VALUES\<close> are not part of the source. The field \<open>time_check\<close>
  of a column is the classification of the value \<^verbatim>\<open>_get_time_type\<close> inspects for it
  (the default value of its physical type for an empty or non-pandas table, its first
  value otherwise): numeric, datetime, or neither (\<open>None\<close>).
\<close>

datatype engine = Pandas | Dask | Koalas

datatype time_class = Numeric | Datetime

record column =
  dtype :: string
  semantic_tags :: "string set"
  time_check :: "time_class option"

text \<open>
  A Python dictionary is an association list in insertion order with distinct keys:
  \<^verbatim>\<open>d[k] = v\<close> is \<^const>\<open>AList.update\<close>, which keeps the place of an existing key
  and appends a new one. The metadata entry is absent (\<open>None\<close>) or holds what was
  stored, which may be Python's \<^verbatim>\<open>None\<close> (\<open>Some None\<close>).
\<close>

type_synonym secondary_time_index = "(string \<times> string list) list"

record table =
  engine :: engine
  empty :: bool
  has_schema :: bool
  ww_name :: string
  ww_index :: "string option"
  ww_time_index :: "string option"
  columns :: "(string \<times> column) list"
  meta_secondary_time_index :: "secondary_time_index option option"

datatype warning = DuplicateRelationship relationship

text \<open>
  The entity set: \<^verbatim>\<open>dataframe_dict\<close>, \<^verbatim>\<open>relationships\<close>, \<^verbatim>\<open>time_type\<close> and the
  cache \<^verbatim>\<open>_data_description\<close> of the metadata, whose values have type \<open>'d\<close>. The
  field \<open>warnings\<close> is not an attribute of the class: it collects the calls of
  \<^verbatim>\<open>warnings.warn\<close>.
\<close>

record 'd entityset =
  dataframe_dict :: "(string \<times> table) list"
  relationships :: "relationship list"
  time_type :: "time_class option"
  data_description :: "'d option"
  warnings :: "warning list"

text \<open>
  A call that mutates the entity set ends in one of two ways; both carry the state the
  entity set is left in.
\<close>

datatype 'd outcome = Raised error "'d entityset" | Returned "'d entityset"

section \<open>Relationship access\<close>

definition getitem :: "'d entityset \<Rightarrow> string \<Rightarrow> error + table" where
  "getitem es dataframe_id =
     (case map_of (dataframe_dict es) dataframe_id of
        Some df \<Rightarrow> Inr df
      | None \<Rightarrow> Inl KeyError)"


definition get_backward_relationships :: "relationship list \<Rightarrow> string \<Rightarrow> relationship list" where
  "get_backward_relationships rels entity_id = filter (\<lambda>r. parent_dataframe_id r = entity_id) rels"











section \<open>Adding a relationship\<close>

definition ww_column :: "'d entityset \<Rightarrow> string \<Rightarrow> string \<Rightarrow> error + column" where
  "ww_column es dataframe_id column_id =
     (case getitem es dataframe_id of
        Inl e \<Rightarrow> Inl e
      | Inr df \<Rightarrow>
          (case map_of (columns df) column_id of
             Some c \<Rightarrow> Inr c
           | None \<Rightarrow> Inl KeyError))"

definition reset_data_description :: "'d entityset \<Rightarrow> 'd entityset" where
  "reset_data_description es = es\<lparr>data_description := None\<rparr>"

text \<open>
  The \<^verbatim>\<open>metadata\<close> property. The serialisation that computes the description is
  outside the source and is the parameter \<open>describe\<close>.
\<close>

definition metadata :: "('d entityset \<Rightarrow> 'd) \<Rightarrow> 'd entityset \<Rightarrow> 'd \<times> 'd entityset" where
  "metadata describe es =
     (case data_description es of
        None \<Rightarrow> (describe es, es\<lparr>data_description := Some (describe es)\<rparr>)
      | Some d \<Rightarrow> (d, es))"

text \<open>The mutations of a registered table, which is an object shared with the dictionary.\<close>

definition update_table :: "'d entityset \<Rightarrow> string \<Rightarrow> (table \<Rightarrow> table) \<Rightarrow> 'd entityset" where
  "update_table es dataframe_id f =
     es\<lparr>dataframe_dict := AList.map_entry dataframe_id f (dataframe_dict es)\<rparr>"

definition update_column :: "string \<Rightarrow> (column \<Rightarrow> column) \<Rightarrow> table \<Rightarrow> table" where
  "update_column column_id f df = df\<lparr>columns := AList.map_entry column_id f (columns df)\<rparr>"

definition add_semantic_tags :: "string \<Rightarrow> string \<Rightarrow> table \<Rightarrow> table" where
  "add_semantic_tags column_id tag df =
     update_column column_id (\<lambda>c. c\<lparr>semantic_tags := insert tag (semantic_tags c)\<rparr>) df"

definition set_index :: "string \<Rightarrow> table \<Rightarrow> table" where
  "set_index column_id df = df\<lparr>ww_index := Some column_id\<rparr>"

text \<open>
  Line 317 asks \<^verbatim>\<open>parent_df.ww[parent_column]\<close>, which is a pandas Series, for
  \<^verbatim>\<open>is_numeric\<close>. A Series has no such attribute, so the test raises
  \<^verbatim>\<open>AttributeError\<close> whenever the conjuncts before it hold.
\<close>

definition series_is_numeric :: "column \<Rightarrow> error + bool" where
  "series_is_numeric parent_column = Inl AttributeError"

text \<open>
  \<^verbatim>\<open>add_relationship(relationship=r)\<close>. With the four names instead, the source first
  builds \<open>r\<close> with the class \<^verbatim>\<open>Relationship\<close> and then runs the same statements. The
  tables are read again from the state after each mutation, since the parent and the
  child may be the same table.
\<close>

definition add_relationship :: "'d entityset \<Rightarrow> relationship \<Rightarrow> 'd outcome" where
  "add_relationship es relationship =
     (if relationship \<in> set (relationships es)
      then Returned (es\<lparr>warnings := warnings es @ [DuplicateRelationship relationship]\<rparr>)
      else
        (case getitem es (child_dataframe_id relationship) of
           Inl e \<Rightarrow> Raised e es
         | Inr child_df \<Rightarrow>
        (case ww_column es (child_dataframe_id relationship) (child_column_id relationship) of
           Inl e \<Rightarrow> Raised e es
         | Inr child_col \<Rightarrow>
        if ww_index child_df = Some (child_column_id relationship) then Raised ValueError es
        else
        (case getitem es (parent_dataframe_id relationship) of
           Inl e \<Rightarrow> Raised e es
         | Inr parent_df \<Rightarrow>
        (case ww_column es (parent_dataframe_id relationship) (parent_column_id relationship) of
           Inl e \<Rightarrow> Raised e es
         | Inr parent_col \<Rightarrow>
        (let es1 = (if ''foreign_key'' \<notin> semantic_tags child_col
                    then update_table es (child_dataframe_id relationship)
                           (add_semantic_tags (child_column_id relationship) ''foreign_key'')
                    else es);
             es2 = (if ww_index parent_df \<noteq> Some (parent_column_id relationship)
                    then update_table es1 (parent_dataframe_id relationship)
                           (set_index (parent_column_id relationship))
                    else es1)
         in (case (if engine child_df = Pandas \<and> empty child_df \<and> dtype child_col = ''object''
                   then (case series_is_numeric parent_col of
                           Inl e \<Rightarrow> Inl e
                         | Inr numeric \<Rightarrow>
                             Inr (if numeric
                                  then update_table es2 (child_dataframe_id relationship)
                                         (update_column (child_column_id relationship)
                                            (\<lambda>c. c\<lparr>dtype := ''int64''\<rparr>))
                                  else es2))
                   else Inr es2) of
               Inl e \<Rightarrow> Raised e es2
             | Inr es3 \<Rightarrow>
            (case ww_column es3 (parent_dataframe_id relationship) (parent_column_id relationship) of
               Inl e \<Rightarrow> Raised e es3
             | Inr parent_col3 \<Rightarrow>
            (case ww_column es3 (child_dataframe_id relationship) (child_column_id relationship) of
               Inl e \<Rightarrow> Raised e es3
             | Inr child_col3 \<Rightarrow>
                 if dtype parent_col3 \<noteq> dtype child_col3 then Raised ValueError es3
                 else Returned (reset_data_description
                        (es3\<lparr>relationships := relationships es3 @ [relationship]\<rparr>)))))))))))"

section \<open>Time index checks\<close>

text \<open>
  \<^verbatim>\<open>_get_time_type(dataframe, column_id)\<close>: a lookup of a column the table does not have
  is a \<^verbatim>\<open>KeyError\<close>; a value that is neither numeric nor a datetime is a
  \<^verbatim>\<open>TypeError\<close>.
\<close>

definition get_time_type :: "table \<Rightarrow> string \<Rightarrow> error + time_class" where
  "get_time_type dataframe column_id =
     (case map_of (columns dataframe) column_id of
        None \<Rightarrow> Inl KeyError
      | Some c \<Rightarrow>
          (case time_check c of
             None \<Rightarrow> Inl TypeError
           | Some found \<Rightarrow> Inr found))"

text \<open>
  \<^verbatim>\<open>_check_uniform_time_index(dataframe, column_id=None)\<close>. In
  \<^verbatim>\<open>column_id or dataframe.ww.time_index\<close> the empty string is falsy as \<^verbatim>\<open>None\<close> is.
\<close>

definition check_uniform_time_index ::
  "'d entityset \<Rightarrow> table \<Rightarrow> string option \<Rightarrow> 'd outcome" where
  "check_uniform_time_index es dataframe column_id =
     (case (case column_id of
              Some c \<Rightarrow> if c \<noteq> [] then Some c else ww_time_index dataframe
            | None \<Rightarrow> ww_time_index dataframe) of
        None \<Rightarrow> Returned es
      | Some c \<Rightarrow>
          (case get_time_type dataframe c of
             Inl e \<Rightarrow> Raised e es
           | Inr found \<Rightarrow>
               (case time_type es of
                  None \<Rightarrow> Returned (es\<lparr>time_type := Some found\<rparr>)
                | Some t \<Rightarrow> if t \<noteq> found then Raised TypeError es else Returned es)))"

text \<open>
  The loop of \<^verbatim>\<open>_check_secondary_time_index\<close> over the items of the dictionary. It
  appends to the lists of the dictionary in place, so the dictionary is returned as the
  loop leaves it, also when it raises.
\<close>

fun check_secondary_items ::
  "'d entityset \<Rightarrow> table \<Rightarrow> secondary_time_index \<Rightarrow> 'd outcome \<times> secondary_time_index" where
  "check_secondary_items es dataframe [] = (Returned es, [])"
| "check_secondary_items es dataframe ((time_index, cols) # rest) =
     (case check_uniform_time_index es dataframe (Some time_index) of
        Raised e es' \<Rightarrow> (Raised e es', (time_index, cols) # rest)
      | Returned es' \<Rightarrow>
          (case check_secondary_items es' dataframe rest of
             (out, rest') \<Rightarrow>
               (out, (time_index, if time_index \<notin> set cols then cols @ [time_index] else cols)
                     # rest')))"

text \<open>
  \<^verbatim>\<open>_check_secondary_time_index(dataframe, secondary_time_index=None)\<close>. The dictionary
  it walks is the argument when that is truthy (not \<^verbatim>\<open>None\<close>, not empty), and the
  metadata entry of the table otherwise (\<^verbatim>\<open>{}\<close> when the entry is absent; a stored
  \<^verbatim>\<open>None\<close> has no \<^verbatim>\<open>items\<close>). The result gives the outcome, the argument and the
  table as the call leaves them.
\<close>

definition check_secondary_time_index ::
  "'d entityset \<Rightarrow> table \<Rightarrow> secondary_time_index option
     \<Rightarrow> 'd outcome \<times> secondary_time_index option \<times> table" where
  "check_secondary_time_index es dataframe secondary_time_index =
     (if secondary_time_index \<noteq> None \<and> secondary_time_index \<noteq> Some []
      then (case secondary_time_index of
              Some d \<Rightarrow>
                (case check_secondary_items es dataframe d of
                   (out, d') \<Rightarrow> (out, Some d', dataframe))
            | None \<Rightarrow> (Returned es, secondary_time_index, dataframe))
      else
        (case meta_secondary_time_index dataframe of
           None \<Rightarrow> (Returned es, secondary_time_index, dataframe)
         | Some None \<Rightarrow> (Raised AttributeError es, secondary_time_index, dataframe)
         | Some (Some d) \<Rightarrow>
             (case check_secondary_items es dataframe d of
                (out, d') \<Rightarrow>
                  (out, secondary_time_index,
                   dataframe\<lparr>meta_secondary_time_index := Some (Some d')\<rparr>))))"

text \<open>
  \<^verbatim>\<open>set_secondary_time_index(dataframe, secondary_time_index)\<close>. The dataframe is an
  object of the caller; the result gives it as the call leaves it.
\<close>

definition set_secondary_time_index ::
  "'d entityset \<Rightarrow> table \<Rightarrow> secondary_time_index option \<Rightarrow> 'd outcome \<times> table" where
  "set_secondary_time_index es dataframe secondary_time_index =
     (case check_secondary_time_index es dataframe secondary_time_index of
        (Raised e es', sti', dataframe') \<Rightarrow> (Raised e es', dataframe')
      | (Returned es', sti', dataframe') \<Rightarrow>
          (Returned es', dataframe'\<lparr>meta_secondary_time_index := Some sti'\<rparr>))"

section \<open>Adding a table\<close>

text \<open>
  \<^verbatim>\<open>dataframe.ww.init(name=dataframe_id, ...)\<close> belongs to Woodwork and is the
  parameter \<open>ww_init\<close>, which gets the name and the other keyword arguments (\<open>hints\<close>)
  and gives the table with its schema, or raises.
\<close>

definition ww_prepare ::
  "(string \<Rightarrow> 'h \<Rightarrow> table \<Rightarrow> error + table) \<Rightarrow> string \<Rightarrow> 'h \<Rightarrow> table \<Rightarrow> error + table" where
  "ww_prepare ww_init dataframe_id hints dataframe =
     (if \<not> has_schema dataframe then ww_init dataframe_id hints dataframe
      else Inr (dataframe\<lparr>ww_name := dataframe_id\<rparr>))"

text \<open>
  \<^verbatim>\<open>add_dataframe\<close>. The message of the engine mismatch reads the attribute \<^verbatim>\<open>df\<close> of
  the first registered dataframe, which a dataframe has only as a column of that name.
\<close>

definition add_dataframe ::
  "(string \<Rightarrow> 'h \<Rightarrow> table \<Rightarrow> error + table) \<Rightarrow> 'd entityset \<Rightarrow> string \<Rightarrow> table \<Rightarrow> 'h
     \<Rightarrow> secondary_time_index option \<Rightarrow> 'd outcome" where
  "add_dataframe ww_init es dataframe_id dataframe hints secondary_time_index =
     (case (case dataframe_dict es of
              [] \<Rightarrow> None
            | (first_id, first) # others \<Rightarrow>
                if engine dataframe \<noteq> engine first
                then Some (if map_of (columns first) ''df'' = None then AttributeError
                           else ValueError)
                else None) of
        Some e \<Rightarrow> Raised e es
      | None \<Rightarrow>
     (case ww_prepare ww_init dataframe_id hints dataframe of
        Inl e \<Rightarrow> Raised e es
      | Inr df1 \<Rightarrow>
     (case (if secondary_time_index \<noteq> None \<and> secondary_time_index \<noteq> Some []
            then set_secondary_time_index es df1 secondary_time_index
            else (Returned es, df1)) of
        (Raised e es2, df2) \<Rightarrow> Raised e es2
      | (Returned es2, df2) \<Rightarrow>
     (case (if ww_time_index df2 \<noteq> None
            then (case check_uniform_time_index es2 df2 None of
                    Raised e es3 \<Rightarrow> (Raised e es3, df2)
                  | Returned es3 \<Rightarrow>
                      (case check_secondary_time_index es3 df2 None of
                         (out, sti', df3) \<Rightarrow> (out, df3)))
            else (Returned es2, df2)) of
        (Raised e es4, df4) \<Rightarrow> Raised e es4
      | (Returned es4, df4) \<Rightarrow>
          Returned (reset_data_description
            (es4\<lparr>dataframe_dict := AList.update dataframe_id df4 (dataframe_dict es4)\<rparr>))))))"

section \<open>Normalising a table: the argument checks\<close>

text \<open>
  The arguments \<^verbatim>\<open>additional_columns\<close> and \<^verbatim>\<open>copy_columns\<close> of
  \<^verbatim>\<open>normalize_dataframe\<close> are Python values: \<^verbatim>\<open>None\<close>, a list, or something else, of
  which only its truth value matters. A list is an object that the caller and the callee
  share, so lists live in a heap and a list value is an address. An address outside the
  heap does not occur; the model reads it as an empty list.
\<close>

type_synonym heap = "string list list"

datatype pyval = PyNone | PyList nat | PyOther bool

text \<open>
  \<^verbatim>\<open>x or []\<close> is \<open>x\<close> itself when \<open>x\<close> is truthy, and a new empty list otherwise. An
  empty list is falsy.
\<close>

definition or_empty_list :: "heap \<Rightarrow> pyval \<Rightarrow> heap \<times> pyval" where
  "or_empty_list h v =
     (case v of
        PyNone \<Rightarrow> (h @ [[]], PyList (length h))
      | PyList a \<Rightarrow>
          if a < length h \<and> h ! a \<noteq> [] then (h, PyList a)
          else (h @ [[]], PyList (length h))
      | PyOther truthy \<Rightarrow>
          if truthy then (h, PyOther truthy) else (h @ [[]], PyList (length h)))"

text \<open>\<^verbatim>\<open>make_time_index\<close> is \<^verbatim>\<open>None\<close>, a boolean or a string.\<close>

datatype time_index_arg = MtiNone | MtiBool bool | MtiStr string

text \<open>
  Lines 631 to 671: the base table is looked up, the two arguments are replaced by new
  empty lists when falsy, and the checks run in the order of the source. The result is
  the exception, or the base table with the addresses of the two lists; the heap comes
  with both.
\<close>

definition normalize_validate ::
  "'d entityset \<Rightarrow> heap \<Rightarrow> string \<Rightarrow> string \<Rightarrow> pyval \<Rightarrow> pyval \<Rightarrow> time_index_arg
     \<Rightarrow> (error + table \<times> nat \<times> nat) \<times> heap" where
  "normalize_validate es h base_dataframe_id index additional_columns copy_columns
       make_time_index =
     (case map_of (dataframe_dict es) base_dataframe_id of
        None \<Rightarrow> (Inl KeyError, h)
      | Some base_dataframe \<Rightarrow>
     (case or_empty_list h additional_columns of
        (h1, additional) \<Rightarrow>
     (case or_empty_list h1 copy_columns of
        (h2, copy) \<Rightarrow>
     (case additional of
        PyList a \<Rightarrow>
          if length (h2 ! a) \<noteq> card (set (h2 ! a)) then (Inl ValueError, h2)
          else
            (case copy of
               PyList c \<Rightarrow>
                 if length (h2 ! c) \<noteq> card (set (h2 ! c)) then (Inl ValueError, h2)
                 else if index \<in> set (h2 ! a @ h2 ! c) then (Inl ValueError, h2)
                 else if (case ww_time_index base_dataframe of
                            Some t \<Rightarrow> t \<in> set (h2 ! a)
                          | None \<Rightarrow> False)
                 then (Inl ValueError, h2)
                 else if (case make_time_index of
                            MtiStr s \<Rightarrow>
                              s \<notin> fst ` set (columns base_dataframe)
                              \<or> s \<notin> set (h2 ! a @ h2 ! c)
                          | MtiBool b \<Rightarrow> False
                          | MtiNone \<Rightarrow> False)
                 then (Inl ValueError, h2)
                 else if ww_index base_dataframe = Some index then (Inl ValueError, h2)
                 else (Inr (base_dataframe, a, c), h2)
             | PyNone \<Rightarrow> (Inl TypeError, h2)
             | PyOther b \<Rightarrow> (Inl TypeError, h2))
      | PyNone \<Rightarrow> (Inl TypeError, h2)
      | PyOther b \<Rightarrow> (Inl TypeError, h2)))))"

text \<open>
  \<^verbatim>\<open>already_sorted\<close> is a boolean, or the result of comparing a string with
  \<^verbatim>\<open>base_dataframe.time_index\<close>, which is a column of that name.
\<close>

datatype sortedness = Sorted bool | Elementwise

record normalize_locals =
  additional_columns :: "string list"
  copy_columns :: "string list"
  make_time_index :: time_index_arg
  base_time_index :: "string option"
  new_dataframe_time_index :: "string option"
  already_sorted :: sortedness
  transfer_types :: "(string \<times> column) list"

text \<open>
  \<^verbatim>\<open>transfer_types\<close> (lines 673 to 678): the column of \<open>index\<close>, then the additional
  and the copied columns without the tag \<open>time_index\<close>. A name that is not a column of
  the base table is a \<^verbatim>\<open>KeyError\<close>.
\<close>

fun transfer_columns ::
  "table \<Rightarrow> string list \<Rightarrow> (string \<times> column) list \<Rightarrow> error + (string \<times> column) list" where
  "transfer_columns base_dataframe [] acc = Inr acc"
| "transfer_columns base_dataframe (col_name # rest) acc =
     (case map_of (columns base_dataframe) col_name of
        None \<Rightarrow> Inl KeyError
      | Some c \<Rightarrow>
          transfer_columns base_dataframe rest
            (AList.update col_name (c\<lparr>semantic_tags := semantic_tags c - {''time_index''}\<rparr>) acc))"

text \<open>
  Lines 673 to 712: the types to transfer and the time index of the new table. The
  attribute \<^verbatim>\<open>base_dataframe.time_index\<close> (without \<^verbatim>\<open>ww\<close>) exists only as a column of
  that name. With a truthy \<^verbatim>\<open>make_time_index\<close> that is not a string, the time index of
  the base table is appended to the list \<^verbatim>\<open>copy_columns\<close>, in place.
\<close>

definition normalize_time_index ::
  "table \<Rightarrow> heap \<Rightarrow> string \<Rightarrow> nat \<Rightarrow> nat \<Rightarrow> time_index_arg \<Rightarrow> string option
     \<Rightarrow> (error + normalize_locals) \<times> heap" where
  "normalize_time_index base_dataframe h index a c make_time_index_arg new_time_index_arg =
     (case map_of (columns base_dataframe) index of
        None \<Rightarrow> (Inl KeyError, h)
      | Some index_column \<Rightarrow>
     (case transfer_columns base_dataframe (h ! a @ h ! c) [(index, index_column)] of
        Inl e \<Rightarrow> (Inl e, h)
      | Inr transfer \<Rightarrow>
     (case (case make_time_index_arg of
              MtiNone \<Rightarrow>
                if map_of (columns base_dataframe) ''time_index'' = None
                then Inl AttributeError else Inr (MtiBool True)
            | MtiBool b \<Rightarrow> Inr (MtiBool b)
            | MtiStr s \<Rightarrow> Inr (MtiStr s)) of
        Inl e \<Rightarrow> (Inl e, h)
      | Inr mti \<Rightarrow>
     (case (case mti of
              MtiStr s \<Rightarrow>
                if map_of (columns base_dataframe) ''time_index'' = None
                then (Inl AttributeError, h)
                else (Inr \<lparr>additional_columns = h ! a, copy_columns = h ! c,
                        make_time_index = mti, base_time_index = Some s,
                        new_dataframe_time_index = Some s, already_sorted = Elementwise,
                        transfer_types = transfer\<rparr>, h)
            | MtiBool True \<Rightarrow>
                (case ww_time_index base_dataframe of
                   None \<Rightarrow> (Inl AssertionError, h)
                 | Some t \<Rightarrow>
                     (let new_time_index =
                            (case new_time_index_arg of
                               None \<Rightarrow> ''first_'' @ ww_name base_dataframe @ ''_time''
                             | Some n \<Rightarrow> n);
                          h' = (if t \<notin> set (h ! a) then h[c := h ! c @ [t]] else h)
                      in (case map_of (columns base_dataframe) t of
                            None \<Rightarrow> (Inl KeyError, h')
                          | Some time_column \<Rightarrow>
                              (Inr \<lparr>additional_columns = h' ! a, copy_columns = h' ! c,
                                 make_time_index = mti, base_time_index = Some t,
                                 new_dataframe_time_index = Some new_time_index,
                                 already_sorted = Sorted True,
                                 transfer_types =
                                   AList.update new_time_index time_column transfer\<rparr>, h'))))
            | MtiBool False \<Rightarrow>
                (Inr \<lparr>additional_columns = h ! a, copy_columns = h ! c,
                   make_time_index = mti, base_time_index = None,
                   new_dataframe_time_index = None, already_sorted = Sorted False,
                   transfer_types = transfer\<rparr>, h)
            | MtiNone \<Rightarrow>
                (Inr \<lparr>additional_columns = h ! a, copy_columns = h ! c,
                   make_time_index = mti, base_time_index = None,
                   new_dataframe_time_index = None, already_sorted = Sorted False,
                   transfer_types = transfer\<rparr>, h)) of
        (Inl e, h') \<Rightarrow> (Inl e, h')
      | (Inr locals, h') \<Rightarrow>
          if new_dataframe_time_index locals = Some index then (Inl ValueError, h')
          else (Inr locals, h')))))"

text \<open>Lines 631 to 712 together.\<close>

definition normalize_checks ::
  "'d entityset \<Rightarrow> heap \<Rightarrow> string \<Rightarrow> string \<Rightarrow> pyval \<Rightarrow> pyval \<Rightarrow> time_index_arg
     \<Rightarrow> string option \<Rightarrow> (error + normalize_locals) \<times> heap" where
  "normalize_checks es h base_dataframe_id index additional_columns_arg copy_columns_arg
       make_time_index_arg new_time_index_arg =
     (case normalize_validate es h base_dataframe_id index additional_columns_arg
             copy_columns_arg make_time_index_arg of
        (Inl e, h') \<Rightarrow> (Inl e, h')
      | (Inr (base_dataframe, a, c), h') \<Rightarrow>
          normalize_time_index base_dataframe h' index a c make_time_index_arg
            new_time_index_arg)"

text \<open>
  \<^verbatim>\<open>normalize_dataframe\<close>. The remainder (lines 714 to 774) builds the new dataframe with
  the dataframe engine and registers it; it is the parameter \<open>remainder\<close>, which gets
  what the lines above have computed. It reads the two lists and does not change them.
\<close>

definition normalize_dataframe ::
  "('d entityset \<Rightarrow> string \<Rightarrow> string \<Rightarrow> string \<Rightarrow> normalize_locals \<Rightarrow> 'd outcome)
     \<Rightarrow> 'd entityset \<Rightarrow> heap \<Rightarrow> string \<Rightarrow> string \<Rightarrow> string \<Rightarrow> pyval \<Rightarrow> pyval
     \<Rightarrow> time_index_arg \<Rightarrow> string option \<Rightarrow> 'd outcome \<times> heap" where
  "normalize_dataframe remainder es h base_dataframe_id new_dataframe_id index
       additional_columns_arg copy_columns_arg make_time_index_arg new_time_index_arg =
     (case normalize_checks es h base_dataframe_id index additional_columns_arg
             copy_columns_arg make_time_index_arg new_time_index_arg of
        (Inl e, h') \<Rightarrow> (Raised e es, h')
      | (Inr locals, h') \<Rightarrow>
          (remainder es base_dataframe_id new_dataframe_id index locals, h'))"

text \<open>The list a caller passes, when the argument is a list.\<close>

definition arg_list :: "heap \<Rightarrow> pyval \<Rightarrow> string list option" where
  "arg_list h v =
     (case v of
        PyList a \<Rightarrow> if a < length h then Some (h ! a) else None
      | PyNone \<Rightarrow> None
      | PyOther b \<Rightarrow> None)"

text \<open>
  The checks of lines 647 to 671 on the contents of the two lists, for the case that both
  arguments are lists: the first check that fails, in the order of the source.
\<close>

definition validate_lists ::
  "table \<Rightarrow> string \<Rightarrow> string list \<Rightarrow> string list \<Rightarrow> time_index_arg \<Rightarrow> error option" where
  "validate_lists base i xs ys mti =
     (if length xs \<noteq> card (set xs) then Some ValueError
      else if length ys \<noteq> card (set ys) then Some ValueError
      else if i \<in> set (xs @ ys) then Some ValueError
      else if (case ww_time_index base of Some t \<Rightarrow> t \<in> set xs | None \<Rightarrow> False)
      then Some ValueError
      else if (case mti of
                 MtiStr s \<Rightarrow> s \<notin> fst ` set (columns base) \<or> s \<notin> set (xs @ ys)
               | MtiBool b \<Rightarrow> False
               | MtiNone \<Rightarrow> False)
      then Some ValueError
      else if ww_index base = Some i then Some ValueError
      else None)"

section \<open>Example entity sets\<close>

definition int_column :: column where
  "int_column = \<lparr>dtype = ''int64'', semantic_tags = {},
     time_check = Some Numeric\<rparr>"

definition ex_customers :: table where
  "ex_customers = \<lparr>engine = Pandas, empty = False, has_schema = True, ww_name = ''customers'',
     ww_index = Some ''id'', ww_time_index = None,
     columns = [(''id'', int_column), (''code'', int_column)],
     meta_secondary_time_index = None\<rparr>"

definition ex_orders :: table where
  "ex_orders = \<lparr>engine = Pandas, empty = False, has_schema = True, ww_name = ''orders'',
     ww_index = Some ''id'', ww_time_index = None,
     columns = [(''id'', int_column), (''customer_id'', int_column),
       (''customer_code'', int_column)],
     meta_secondary_time_index = None\<rparr>"

definition ex_items :: table where
  "ex_items = \<lparr>engine = Pandas, empty = False, has_schema = True, ww_name = ''items'',
     ww_index = Some ''id'', ww_time_index = None,
     columns = [(''id'', int_column), (''order_ref'', int_column)],
     meta_secondary_time_index = None\<rparr>"

definition ex_es :: "nat entityset" where
  "ex_es = \<lparr>dataframe_dict = [(''customers'', ex_customers), (''orders'', ex_orders),
       (''items'', ex_items)],
     relationships = [], time_type = None, data_description = Some 0, warnings = []\<rparr>"

definition rel_id :: relationship where
  "rel_id = \<lparr>parent_dataframe_id = ''customers'', parent_column_id = ''id'',
     child_dataframe_id = ''orders'', child_column_id = ''customer_id''\<rparr>"

definition rel_code :: relationship where
  "rel_code = \<lparr>parent_dataframe_id = ''customers'', parent_column_id = ''code'',
     child_dataframe_id = ''orders'', child_column_id = ''customer_code''\<rparr>"

definition rel_items :: relationship where
  "rel_items = \<lparr>parent_dataframe_id = ''orders'', parent_column_id = ''customer_id'',
     child_dataframe_id = ''items'', child_column_id = ''order_ref''\<rparr>"









text \<open>What a call left behind: the state, and the exception if it raised.\<close>

definition state_of :: "'d outcome \<Rightarrow> 'd entityset" where
  "state_of out = (case out of Raised e es \<Rightarrow> es | Returned es \<Rightarrow> es)"

definition raised :: "'d outcome \<Rightarrow> error option" where
  "raised out = (case out of Raised e es \<Rightarrow> Some e | Returned es \<Rightarrow> None)"

text \<open>The next call of a script, which an exception of an earlier call ends.\<close>

definition then_add_relationship :: "'d outcome \<Rightarrow> relationship \<Rightarrow> 'd outcome" where
  "then_add_relationship out r =
     (case out of Raised e es \<Rightarrow> Raised e es | Returned es \<Rightarrow> add_relationship es r)"

text \<open>
  The state after \<open>customers.id\<close> and then \<open>customers.code\<close> became parent columns:
  the index of \<open>customers\<close> is \<open>code\<close>.
\<close>

definition ex_es_two_parents :: "nat entityset" where
  "ex_es_two_parents =
     state_of (then_add_relationship (add_relationship ex_es rel_id) rel_code)"

text \<open>
  The state after \<open>orders.customer_id\<close> became a child column and then a parent column:
  it is the index of \<open>orders\<close>.
\<close>

definition ex_es_child_promoted :: "nat entityset" where
  "ex_es_child_promoted =
     state_of (then_add_relationship (add_relationship ex_es rel_id) rel_items)"

definition rel_on_index :: relationship where
  "rel_on_index = \<lparr>parent_dataframe_id = ''customers'', parent_column_id = ''id'',
     child_dataframe_id = ''orders'', child_column_id = ''id''\<rparr>"

text \<open>Empty tables, as the metadata has them: a child column of dtype \<open>object\<close>.\<close>

definition object_column :: column where
  "object_column = \<lparr>dtype = ''object'', semantic_tags = {},
     time_check = None\<rparr>"

definition ex_devices :: table where
  "ex_devices = \<lparr>engine = Pandas, empty = True, has_schema = True, ww_name = ''devices'',
     ww_index = Some ''id'', ww_time_index = None,
     columns = [(''id'', int_column)], meta_secondary_time_index = None\<rparr>"

definition ex_readings :: table where
  "ex_readings = \<lparr>engine = Pandas, empty = True, has_schema = True, ww_name = ''readings'',
     ww_index = Some ''id'', ww_time_index = None,
     columns = [(''id'', int_column), (''device_id'', object_column)],
     meta_secondary_time_index = None\<rparr>"

definition ex_empty_es :: "nat entityset" where
  "ex_empty_es = \<lparr>dataframe_dict = [(''devices'', ex_devices), (''readings'', ex_readings)],
     relationships = [], time_type = None, data_description = None, warnings = []\<rparr>"

definition rel_device :: relationship where
  "rel_device = \<lparr>parent_dataframe_id = ''devices'', parent_column_id = ''id'',
     child_dataframe_id = ''readings'', child_column_id = ''device_id''\<rparr>"

text \<open>A table with a datetime time index, and a table with a numeric one.\<close>

definition datetime_column :: column where
  "datetime_column = \<lparr>dtype = ''datetime64[ns]'', semantic_tags = {},
     time_check = Some Datetime\<rparr>"

definition ex_visits :: table where
  "ex_visits = \<lparr>engine = Pandas, empty = False, has_schema = True, ww_name = ''visits'',
     ww_index = Some ''id'', ww_time_index = Some ''visit_time'',
     columns = [(''id'', int_column), (''visit_time'', datetime_column)],
     meta_secondary_time_index = None\<rparr>"

definition ex_ticks :: table where
  "ex_ticks = \<lparr>engine = Pandas, empty = False, has_schema = True, ww_name = ''ticks'',
     ww_index = Some ''id'', ww_time_index = Some ''tick'',
     columns = [(''id'', int_column), (''tick'', int_column)],
     meta_secondary_time_index = None\<rparr>"

text \<open>Woodwork's \<^verbatim>\<open>init\<close> is not called for a table that has its schema.\<close>

definition ww_init_unused :: "string \<Rightarrow> unit \<Rightarrow> table \<Rightarrow> error + table" where
  "ww_init_unused dataframe_id hints dataframe = Inl AssertionError"

text \<open>The next registration of a script.\<close>

definition then_add_dataframe ::
  "'d outcome \<Rightarrow> string \<Rightarrow> table \<Rightarrow> 'd outcome" where
  "then_add_dataframe out dataframe_id dataframe =
     (case out of
        Raised e es \<Rightarrow> Raised e es
      | Returned es \<Rightarrow> add_dataframe ww_init_unused es dataframe_id dataframe () None)"

text \<open>An entity set as \<^verbatim>\<open>EntitySet()\<close> creates it, and a description function.\<close>

definition empty_es :: "nat entityset" where
  "empty_es = \<lparr>dataframe_dict = [], relationships = [], time_type = None,
     data_description = None, warnings = []\<rparr>"

definition count_tables :: "nat entityset \<Rightarrow> nat" where
  "count_tables es = length (dataframe_dict es)"

text \<open>
  The state after \<open>customers.id\<close> became a parent column and the metadata was read:
  the cache holds \<open>3\<close>.
\<close>

definition ex_es_cached :: "nat entityset" where
  "ex_es_cached = snd (metadata count_tables (state_of (add_relationship ex_es rel_id)))"

text \<open>
  The table of the transactions, with a time index, in an entity set of its own.
\<close>

definition ex_transactions :: table where
  "ex_transactions = \<lparr>engine = Pandas, empty = False, has_schema = True,
     ww_name = ''transactions'', ww_index = Some ''id'',
     ww_time_index = Some ''transaction_time'',
     columns = [(''id'', int_column), (''session_id'', int_column),
       (''device'', object_column), (''transaction_time'', datetime_column)],
     meta_secondary_time_index = None\<rparr>"

definition ex_transactions_es :: "nat entityset" where
  "ex_transactions_es = \<lparr>dataframe_dict = [(''transactions'', ex_transactions)],
     relationships = [], time_type = Some Datetime, data_description = None, warnings = []\<rparr>"

text \<open>A remainder for the examples, which only records that it was reached.\<close>

definition remainder_reached ::
  "nat entityset \<Rightarrow> string \<Rightarrow> string \<Rightarrow> string \<Rightarrow> normalize_locals \<Rightarrow> nat outcome" where
  "remainder_reached es base_dataframe_id new_dataframe_id index locals =
     Returned (es\<lparr>data_description := None\<rparr>)"

section \<open>Properties of the path search\<close>









section \<open>Properties of adding a relationship\<close>

lemmas add_relationship_defs = add_relationship_def getitem_def ww_column_def update_table_def
  update_column_def add_semantic_tags_def set_index_def reset_data_description_def
  state_of_def raised_def then_add_relationship_def
  ex_es_def ex_customers_def ex_orders_def ex_items_def int_column_def

lemma getitem_update_table:
  "getitem (update_table es i f) j =
     (case getitem es j of Inl e \<Rightarrow> Inl e | Inr df \<Rightarrow> Inr (if i = j then f df else df))"
  by (simp add: getitem_def update_table_def map_of_map_entry split: option.splits)

lemma map_of_columns_update_column:
  "map_of (columns (update_column c f df)) c' =
     (case map_of (columns df) c' of None \<Rightarrow> None | Some x \<Rightarrow> Some (if c = c' then f x else x))"
  by (simp add: update_column_def map_of_map_entry split: option.splits)

lemma columns_set_index: "columns (set_index c df) = columns df"
  by (simp add: set_index_def)

lemma ww_column_getitem:
  "getitem es i = Inr df \<Longrightarrow> ww_column es i c =
     (case map_of (columns df) c of Some x \<Rightarrow> Inr x | None \<Rightarrow> Inl KeyError)"
  by (simp add: ww_column_def)

lemma relationships_update_table: "relationships (update_table es i f) = relationships es"
  by (simp add: update_table_def)

lemma ex_es_two_parents_eval:
  "ex_es_two_parents = \<lparr>dataframe_dict =
       [(''customers'', ex_customers\<lparr>ww_index := Some ''code''\<rparr>),
        (''orders'', ex_orders\<lparr>columns := [(''id'', int_column),
           (''customer_id'', int_column\<lparr>semantic_tags := {''foreign_key''}\<rparr>),
           (''customer_code'', int_column\<lparr>semantic_tags := {''foreign_key''}\<rparr>)]\<rparr>),
        (''items'', ex_items)],
     relationships = [rel_id, rel_code], time_type = None, data_description = None,
     warnings = []\<rparr>"
  by (simp add: ex_es_two_parents_def rel_id_def rel_code_def add_relationship_defs)

lemma ex_es_child_promoted_eval:
  "ex_es_child_promoted = \<lparr>dataframe_dict =
       [(''customers'', ex_customers),
        (''orders'', ex_orders\<lparr>ww_index := Some ''customer_id'',
           columns := [(''id'', int_column),
             (''customer_id'', int_column\<lparr>semantic_tags := {''foreign_key''}\<rparr>),
             (''customer_code'', int_column)]\<rparr>),
        (''items'', ex_items\<lparr>columns := [(''id'', int_column),
           (''order_ref'', int_column\<lparr>semantic_tags := {''foreign_key''}\<rparr>)]\<rparr>)],
     relationships = [rel_id, rel_items], time_type = None, data_description = None,
     warnings = []\<rparr>"
  by (simp add: ex_es_child_promoted_def rel_id_def rel_items_def add_relationship_defs)

text \<open>
  C3, as the code has it. The duplicate test comes first in \<^verbatim>\<open>add_relationship\<close>: a
  relationship equal to a registered one makes the call return before the child column is
  tagged and before the parent column is promoted, so the tables stay as they are.
\<close>

theorem duplicate_relationship_keeps_tables:
  assumes "relationship \<in> set (relationships es)"
  shows "\<exists>es'. add_relationship es relationship = Returned es'
           \<and> dataframe_dict es' = dataframe_dict es"
  using assms by (simp add: add_relationship_def)

theorem duplicate_relationship_keeps_tables_witness:
  "rel_id \<in> set (relationships ex_es_two_parents)
   \<and> (\<exists>es'. add_relationship ex_es_two_parents rel_id = Returned es'
         \<and> dataframe_dict es' = dataframe_dict ex_es_two_parents)"
proof -
  have h: "rel_id \<in> set (relationships ex_es_two_parents)"
    by (simp add: ex_es_two_parents_eval)
  from h duplicate_relationship_keeps_tables [OF h] show ?thesis by simp
qed

text \<open>
  C3 as stated fails. Two calls register \<open>customers.id\<close> and then \<open>customers.code\<close> as
  parent columns, which leaves \<open>code\<close> the index of \<open>customers\<close>. A third call with the
  first relationship again does not promote \<open>id\<close>: the index is still \<open>code\<close>.
\<close>

theorem duplicate_relationship_side_effects_counterexample:
  "raised (then_add_relationship (add_relationship ex_es rel_id) rel_code) = None
   \<and> rel_id \<in> set (relationships ex_es_two_parents)
   \<and> parent_column_id rel_id = ''id''
   \<and> map_sum id ww_index (getitem ex_es_two_parents ''customers'') = Inr (Some ''code'')
   \<and> raised (add_relationship ex_es_two_parents rel_id) = None
   \<and> map_sum id ww_index
        (getitem (state_of (add_relationship ex_es_two_parents rel_id)) ''customers'')
       = Inr (Some ''code'')"
proof -
  have "raised (then_add_relationship (add_relationship ex_es rel_id) rel_code) = None"
    by (simp add: rel_id_def rel_code_def add_relationship_defs)
  moreover have "rel_id \<in> set (relationships ex_es_two_parents)"
    by (simp add: ex_es_two_parents_eval)
  moreover have "map_sum id ww_index (getitem ex_es_two_parents ''customers'') = Inr (Some ''code'')"
    by (simp add: ex_es_two_parents_eval getitem_def)
  moreover have "add_relationship ex_es_two_parents rel_id =
      Returned (ex_es_two_parents\<lparr>warnings := [DuplicateRelationship rel_id]\<rparr>)"
    by (simp add: ex_es_two_parents_eval add_relationship_def)
  ultimately show ?thesis
    by (simp add: raised_def state_of_def getitem_def rel_id_def)
qed

text \<open>
  C5. A relationship equal to a registered one makes \<^verbatim>\<open>add_relationship\<close> emit the
  warning and return; the list of relationships is unchanged, and nothing is raised.
\<close>

theorem duplicate_relationship_warns:
  assumes "relationship \<in> set (relationships es)"
  shows "\<exists>es'. add_relationship es relationship = Returned es'
           \<and> relationships es' = relationships es
           \<and> warnings es' = warnings es @ [DuplicateRelationship relationship]"
  using assms by (simp add: add_relationship_def)

theorem duplicate_relationship_warns_witness:
  "rel_code \<in> set (relationships ex_es_two_parents)
   \<and> (\<exists>es'. add_relationship ex_es_two_parents rel_code = Returned es'
         \<and> relationships es' = [rel_id, rel_code]
         \<and> warnings es' = [DuplicateRelationship rel_code])"
proof -
  have h: "rel_code \<in> set (relationships ex_es_two_parents)"
    by (simp add: ex_es_two_parents_eval)
  from h duplicate_relationship_warns [OF h] show ?thesis
    by (simp add: ex_es_two_parents_eval)
qed

text \<open>
  C6, as the code has it. When the relationship is not registered yet and its child
  column is the index of the child table, \<^verbatim>\<open>add_relationship\<close> raises \<^verbatim>\<open>ValueError\<close>
  and leaves the entity set as it was: nothing is appended, tagged or promoted.
\<close>

theorem child_index_rejected:
  assumes "relationship \<notin> set (relationships es)"
    and "getitem es (child_dataframe_id relationship) = Inr child_df"
    and "map_of (columns child_df) (child_column_id relationship) = Some child_col"
    and "ww_index child_df = Some (child_column_id relationship)"
  shows "add_relationship es relationship = Raised ValueError es"
  using assms by (simp add: add_relationship_def ww_column_getitem)

theorem child_index_rejected_witness:
  "rel_on_index \<notin> set (relationships ex_es)
   \<and> getitem ex_es (child_dataframe_id rel_on_index) = Inr ex_orders
   \<and> map_of (columns ex_orders) (child_column_id rel_on_index) = Some int_column
   \<and> ww_index ex_orders = Some (child_column_id rel_on_index)
   \<and> add_relationship ex_es rel_on_index = Raised ValueError ex_es"
proof -
  have 1: "rel_on_index \<notin> set (relationships ex_es)"
    by (simp add: ex_es_def)
  have 2: "getitem ex_es (child_dataframe_id rel_on_index) = Inr ex_orders"
    by (simp add: ex_es_def getitem_def rel_on_index_def)
  have 3: "map_of (columns ex_orders) (child_column_id rel_on_index) = Some int_column"
    by (simp add: ex_orders_def rel_on_index_def)
  have 4: "ww_index ex_orders = Some (child_column_id rel_on_index)"
    by (simp add: ex_orders_def rel_on_index_def)
  from child_index_rejected [OF 1 2 3 4] 1 2 3 4 show ?thesis by simp
qed

text \<open>
  C6 as stated fails for a registered relationship. After \<open>orders.customer_id\<close> was
  registered as a child column and then promoted to the index of \<open>orders\<close> as a parent
  column, a call with the first relationship again has a child column that is the index
  of its table, and returns with the warning instead of raising.
\<close>

theorem registered_child_index_counterexample:
  "raised (then_add_relationship (add_relationship ex_es rel_id) rel_items) = None
   \<and> map_sum id ww_index (getitem ex_es_child_promoted (child_dataframe_id rel_id))
       = Inr (Some (child_column_id rel_id))
   \<and> raised (add_relationship ex_es_child_promoted rel_id) = None
   \<and> warnings (state_of (add_relationship ex_es_child_promoted rel_id))
       = [DuplicateRelationship rel_id]"
proof -
  have "raised (then_add_relationship (add_relationship ex_es rel_id) rel_items) = None"
    by (simp add: rel_id_def rel_items_def add_relationship_defs)
  moreover have "map_sum id ww_index (getitem ex_es_child_promoted (child_dataframe_id rel_id))
       = Inr (Some (child_column_id rel_id))"
    by (simp add: ex_es_child_promoted_eval getitem_def rel_id_def)
  moreover have "add_relationship ex_es_child_promoted rel_id =
      Returned (ex_es_child_promoted\<lparr>warnings := [DuplicateRelationship rel_id]\<rparr>)"
    by (simp add: ex_es_child_promoted_eval add_relationship_def)
  ultimately show ?thesis
    by (simp add: raised_def state_of_def)
qed

text \<open>
  C9. The code does not do what C9 says. For a relationship that is not registered yet,
  whose child table is an empty pandas dataframe with a child column of dtype \<open>object\<close>
  that is not its index, \<^verbatim>\<open>add_relationship\<close> raises \<^verbatim>\<open>AttributeError\<close> at line 317,
  whatever the parent column is: the child column keeps the dtype \<open>object\<close> and the
  relationship is not appended. The tag and the promotion of lines 304 to 310 have
  happened by then.
\<close>

theorem empty_object_child_raises:
  assumes new: "r \<notin> set (relationships es)"
    and child: "getitem es (child_dataframe_id r) = Inr child_df"
    and ccol: "map_of (columns child_df) (child_column_id r) = Some child_col"
    and not_index: "ww_index child_df \<noteq> Some (child_column_id r)"
    and parent: "getitem es (parent_dataframe_id r) = Inr parent_df"
    and pcol: "map_of (columns parent_df) (parent_column_id r) = Some parent_col"
    and cond: "engine child_df = Pandas" "empty child_df" "dtype child_col = ''object''"
  shows "\<exists>es'. add_relationship es r = Raised AttributeError es'
          \<and> relationships es' = relationships es
          \<and> map_sum id dtype (ww_column es' (child_dataframe_id r) (child_column_id r))
              = Inr ''object''"
proof -
  define es1 where "es1 = (if ''foreign_key'' \<notin> semantic_tags child_col
                    then update_table es (child_dataframe_id r)
                           (add_semantic_tags (child_column_id r) ''foreign_key'')
                    else es)"
  define es2 where "es2 = (if ww_index parent_df \<noteq> Some (parent_column_id r)
                    then update_table es1 (parent_dataframe_id r)
                           (set_index (parent_column_id r))
                    else es1)"
  have c2: "map_sum id dtype (ww_column es2 (child_dataframe_id r) (child_column_id r))
      = Inr ''object''"
    using child ccol cond(3)
    by (simp add: es2_def es1_def ww_column_def getitem_update_table
        map_of_columns_update_column columns_set_index add_semantic_tags_def)
  have r2: "relationships es2 = relationships es"
    by (simp add: es2_def es1_def relationships_update_table)
  have pre: "ww_column es (child_dataframe_id r) (child_column_id r) = Inr child_col"
    "ww_column es (parent_dataframe_id r) (parent_column_id r) = Inr parent_col"
    using child ccol parent pcol by (simp_all add: ww_column_getitem)
  have "add_relationship es r = Raised AttributeError es2"
    unfolding add_relationship_def Let_def es2_def es1_def series_is_numeric_def
    by (simp only: new child pre not_index parent cond if_False if_True sum.case simp_thms)
  with c2 r2 show ?thesis by blast
qed

text \<open>
  The failing input of C9: the empty table \<open>readings\<close> with the column \<open>device_id\<close> of
  dtype \<open>object\<close>, and the parent column \<open>devices.id\<close> of dtype \<open>int64\<close>.
\<close>

theorem empty_object_child_raises_witness:
  "\<exists>es'. add_relationship ex_empty_es rel_device = Raised AttributeError es'
       \<and> relationships es' = []
       \<and> map_sum id dtype (ww_column es' ''readings'' ''device_id'') = Inr ''object''"
proof -
  have "\<exists>es'. add_relationship ex_empty_es rel_device = Raised AttributeError es'
          \<and> relationships es' = relationships ex_empty_es
          \<and> map_sum id dtype (ww_column es' (child_dataframe_id rel_device)
                (child_column_id rel_device)) = Inr ''object''"
    by (rule empty_object_child_raises [where child_df = ex_readings
          and child_col = object_column and parent_df = ex_devices and parent_col = int_column])
      (simp_all add: ex_empty_es_def rel_device_def getitem_def ex_readings_def
        ex_devices_def object_column_def int_column_def)
  then show ?thesis
    by (simp add: ex_empty_es_def rel_device_def)
qed

section \<open>Properties of the metadata cache\<close>

lemma add_dataframe_resets:
  "add_dataframe ww_init es dataframe_id dataframe hints sti = Returned es'
     \<Longrightarrow> data_description es' = None"
  unfolding add_dataframe_def
  by (auto simp: reset_data_description_def
      split: option.splits sum.splits prod.splits outcome.splits if_splits)

lemma add_relationship_resets:
  "relationship \<notin> set (relationships es) \<Longrightarrow> add_relationship es relationship = Returned es'
     \<Longrightarrow> data_description es' = None"
  unfolding add_relationship_def Let_def
  by (auto simp: reset_data_description_def split: sum.splits if_splits)

lemma metadata_recomputes:
  "data_description es = None
     \<Longrightarrow> metadata describe es = (describe es, es\<lparr>data_description := Some (describe es)\<rparr>)"
  by (simp add: metadata_def)

text \<open>
  C4, as the code has it. When \<^verbatim>\<open>add_dataframe\<close> returns, and when
  \<^verbatim>\<open>add_relationship\<close> returns for a relationship that was not registered, the cache of
  the metadata is unset, and the next access to \<^verbatim>\<open>metadata\<close> computes the description
  from the state it finds.
\<close>

theorem cache_reset_after_mutation:
  "(add_dataframe ww_init es dataframe_id dataframe hints sti = Returned es'
      \<longrightarrow> data_description es' = None
          \<and> metadata describe es' = (describe es', es'\<lparr>data_description := Some (describe es')\<rparr>))
   \<and> (relationship \<notin> set (relationships es) \<and> add_relationship es relationship = Returned es''
      \<longrightarrow> data_description es'' = None
          \<and> metadata describe es'' = (describe es'', es''\<lparr>data_description := Some (describe es'')\<rparr>))"
  using add_dataframe_resets [of ww_init es dataframe_id dataframe hints sti es']
    add_relationship_resets [of relationship es es'']
    metadata_recomputes [of es' describe] metadata_recomputes [of es'' describe]
  by blast

theorem cache_reset_witness:
  "data_description ex_es = Some 0
   \<and> raised (add_dataframe ww_init_unused ex_es ''visits'' ex_visits () None) = None
   \<and> data_description (state_of (add_dataframe ww_init_unused ex_es ''visits'' ex_visits () None))
       = None
   \<and> fst (metadata count_tables
        (state_of (add_dataframe ww_init_unused ex_es ''visits'' ex_visits () None))) = 4
   \<and> rel_id \<notin> set (relationships ex_es)
   \<and> raised (add_relationship ex_es rel_id) = None
   \<and> data_description (state_of (add_relationship ex_es rel_id)) = None
   \<and> fst (metadata count_tables (state_of (add_relationship ex_es rel_id))) = 3"
proof -
  define es' where "es' = state_of (add_dataframe ww_init_unused ex_es ''visits'' ex_visits () None)"
  define es'' where "es'' = state_of (add_relationship ex_es rel_id)"
  have 1: "add_dataframe ww_init_unused ex_es ''visits'' ex_visits () None = Returned es'"
    unfolding es'_def
    by (simp add: add_dataframe_def ww_prepare_def check_uniform_time_index_def
        get_time_type_def check_secondary_time_index_def ex_visits_def datetime_column_def
        state_of_def add_relationship_defs)
  have 2: "rel_id \<notin> set (relationships ex_es)"
    by (simp add: ex_es_def)
  have 3: "add_relationship ex_es rel_id = Returned es''"
    unfolding es''_def by (simp add: rel_id_def add_relationship_defs)
  have 4: "count_tables es' = 4"
    unfolding es'_def
    by (simp add: add_dataframe_def ww_prepare_def check_uniform_time_index_def
        get_time_type_def check_secondary_time_index_def ex_visits_def datetime_column_def
        state_of_def count_tables_def add_relationship_defs)
  have 5: "count_tables es'' = 3"
    unfolding es''_def by (simp add: rel_id_def count_tables_def add_relationship_defs)
  have 6: "data_description ex_es = Some 0"
    by (simp add: ex_es_def)
  from cache_reset_after_mutation [of ww_init_unused ex_es "''visits''" ex_visits "()"
      None es' count_tables rel_id es''] 1 2 3 4 5 6
  show ?thesis
    by (simp add: es'_def [symmetric] es''_def [symmetric] raised_def state_of_def)
qed

text \<open>
  C4 as stated fails. \<^verbatim>\<open>set_secondary_time_index\<close> stores the secondary time index in
  the metadata of the table and leaves the cache as it is: with the cached value \<open>0\<close>,
  the next access to \<^verbatim>\<open>metadata\<close> returns \<open>0\<close> and computes nothing. A call of
  \<^verbatim>\<open>add_relationship\<close> with a registered relationship returns before the reset, and
  the cached value \<open>3\<close> stays.
\<close>

theorem stale_cache_counterexample:
  "data_description ex_es = Some 0
   \<and> raised (fst (set_secondary_time_index ex_es ex_orders (Some [(''customer_id'', [])]))) = None
   \<and> meta_secondary_time_index
        (snd (set_secondary_time_index ex_es ex_orders (Some [(''customer_id'', [])])))
       = Some (Some [(''customer_id'', [''customer_id''])])
   \<and> data_description
        (state_of (fst (set_secondary_time_index ex_es ex_orders (Some [(''customer_id'', [])]))))
       = Some 0
   \<and> fst (metadata count_tables
        (state_of (fst (set_secondary_time_index ex_es ex_orders (Some [(''customer_id'', [])])))))
       = 0
   \<and> count_tables
        (state_of (fst (set_secondary_time_index ex_es ex_orders (Some [(''customer_id'', [])]))))
       = 3
   \<and> rel_id \<in> set (relationships ex_es_cached)
   \<and> data_description ex_es_cached = Some 3
   \<and> raised (add_relationship ex_es_cached rel_id) = None
   \<and> data_description (state_of (add_relationship ex_es_cached rel_id)) = Some 3"
proof -
  define es1 where "es1 = state_of (add_relationship ex_es rel_id)"
  have cached: "ex_es_cached = es1\<lparr>data_description := Some 3\<rparr>"
    unfolding es1_def
    by (simp add: ex_es_cached_def metadata_def count_tables_def rel_id_def
        add_relationship_defs)
  have rel: "relationships es1 = [rel_id]"
    unfolding es1_def by (simp add: rel_id_def add_relationship_defs)
  have dup: "add_relationship ex_es_cached rel_id
      = Returned (ex_es_cached\<lparr>warnings := warnings ex_es_cached @ [DuplicateRelationship rel_id]\<rparr>)"
    by (simp add: add_relationship_def cached rel)
  have "data_description ex_es = Some 0
   \<and> raised (fst (set_secondary_time_index ex_es ex_orders (Some [(''customer_id'', [])]))) = None
   \<and> meta_secondary_time_index
        (snd (set_secondary_time_index ex_es ex_orders (Some [(''customer_id'', [])])))
       = Some (Some [(''customer_id'', [''customer_id''])])
   \<and> data_description
        (state_of (fst (set_secondary_time_index ex_es ex_orders (Some [(''customer_id'', [])]))))
       = Some 0
   \<and> fst (metadata count_tables
        (state_of (fst (set_secondary_time_index ex_es ex_orders (Some [(''customer_id'', [])])))))
       = 0
   \<and> count_tables
        (state_of (fst (set_secondary_time_index ex_es ex_orders (Some [(''customer_id'', [])]))))
       = 3"
    by (simp add: set_secondary_time_index_def check_secondary_time_index_def
        check_uniform_time_index_def get_time_type_def metadata_def count_tables_def
        ex_es_def ex_orders_def int_column_def state_of_def raised_def)
  moreover have "rel_id \<in> set (relationships ex_es_cached)"
    by (simp add: cached rel)
  moreover have "data_description ex_es_cached = Some 3"
    by (simp add: cached)
  moreover have "raised (add_relationship ex_es_cached rel_id) = None"
    by (simp add: dup raised_def)
  moreover have "data_description (state_of (add_relationship ex_es_cached rel_id)) = Some 3"
    by (subst dup) (simp add: state_of_def cached)
  ultimately show ?thesis by simp
qed

section \<open>Properties of the time index checks\<close>

lemma check_uniform_time_index_conflict:
  assumes "ww_time_index df = Some c" "map_of (columns df) c = Some col"
    "time_check col = Some t'" "time_type es = Some t" "t \<noteq> t'"
  shows "check_uniform_time_index es df None = Raised TypeError es"
  using assms by (simp add: check_uniform_time_index_def get_time_type_def)

lemma check_uniform_time_index_first:
  assumes "ww_time_index df = Some c" "map_of (columns df) c = Some col"
    "time_check col = Some t'" "time_type es = None"
  shows "check_uniform_time_index es df None = Returned (es\<lparr>time_type := Some t'\<rparr>)"
  using assms by (simp add: check_uniform_time_index_def get_time_type_def)

lemma check_uniform_time_index_established:
  assumes "time_type es = Some t"
    and "ww_time_index df = Some c" "c \<in> fst ` set (columns df)"
    and "k \<in> fst ` set (columns df)"
  shows "check_uniform_time_index es df (Some k) = Returned es
         \<or> check_uniform_time_index es df (Some k) = Raised TypeError es"
proof -
  have col: "map_of (columns df) x \<noteq> None" if "x \<in> fst ` set (columns df)" for x
    using that by (simp add: map_of_eq_None_iff)
  show ?thesis
  proof (cases "k = []")
    case True
    with assms col [of c] show ?thesis
      by (auto simp: check_uniform_time_index_def get_time_type_def split: option.splits)
  next
    case False
    with assms col [of k] show ?thesis
      by (auto simp: check_uniform_time_index_def get_time_type_def split: option.splits)
  qed
qed

lemma check_secondary_items_established:
  assumes "time_type es = Some t"
    and "ww_time_index df = Some c" "c \<in> fst ` set (columns df)"
    and "fst ` set d \<subseteq> fst ` set (columns df)"
  shows "fst (check_secondary_items es df d) = Returned es
         \<or> fst (check_secondary_items es df d) = Raised TypeError es"
  using assms(4)
proof (induction d)
  case Nil
  then show ?case by simp
next
  case (Cons item rest)
  obtain k cols where item: "item = (k, cols)" by (cases item)
  with Cons.prems have k: "k \<in> fst ` set (columns df)"
    and rest: "fst ` set rest \<subseteq> fst ` set (columns df)"
    by auto
  from check_uniform_time_index_established [OF assms(1-3) k] Cons.IH [OF rest]
  show ?case
    by (auto simp: item split: prod.splits)
qed


text \<open>
  C7. A table of the engine of the registered tables is registered; its time index is
  classified \<open>t'\<close>, and the keys of a secondary time index that comes with it are
  columns of the table. When the entity set has the other classification,
  \<^verbatim>\<open>add_dataframe\<close> raises \<^verbatim>\<open>TypeError\<close> and leaves the entity set as it was. When
  the entity set has no classification yet and the table has no secondary time index,
  the call returns, the table is registered and \<open>t'\<close> is the classification of the
  entity set.
\<close>

theorem time_type_conflict:
  assumes engine_ok:
      "dataframe_dict es = [] \<or> engine dataframe = engine (snd (hd (dataframe_dict es)))"
    and prepared: "ww_prepare ww_init dataframe_id hints dataframe = Inr df1"
    and time_index: "ww_time_index df1 = Some c" "map_of (columns df1) c = Some col"
      "time_check col = Some t'"
    and keys: "case sti of None \<Rightarrow> True | Some d \<Rightarrow> fst ` set d \<subseteq> fst ` set (columns df1)"
  shows "(time_type es = Some t \<and> t \<noteq> t'
            \<longrightarrow> add_dataframe ww_init es dataframe_id dataframe hints sti = Raised TypeError es)
       \<and> (time_type es = None \<and> (sti = None \<or> sti = Some [])
             \<and> meta_secondary_time_index df1 = None
            \<longrightarrow> (\<exists>es'. add_dataframe ww_init es dataframe_id dataframe hints sti = Returned es'
                  \<and> time_type es' = Some t'
                  \<and> map_of (dataframe_dict es') dataframe_id = Some df1))"
proof -
  have guard: "(case dataframe_dict es of
              [] \<Rightarrow> None
            | (first_id, first) # others \<Rightarrow>
                if engine dataframe \<noteq> engine first
                then Some (if map_of (columns first) ''df'' = None then AttributeError
                           else ValueError)
                else None) = None"
    using engine_ok by (auto split: list.splits)
  have c_col: "c \<in> fst ` set (columns df1)"
    using time_index(2) by (metis map_of_eq_None_iff option.distinct(1))
  show ?thesis
  proof (intro conjI impI)
    assume conflict: "time_type es = Some t \<and> t \<noteq> t'"
    have main: "check_uniform_time_index es df None = Raised TypeError es"
      if "ww_time_index df = Some c" "columns df = columns df1" for df
      using that conflict time_index by (simp add: check_uniform_time_index_conflict)
    show "add_dataframe ww_init es dataframe_id dataframe hints sti = Raised TypeError es"
    proof (cases "sti \<noteq> None \<and> sti \<noteq> Some []")
      case False
      then show ?thesis
        unfolding add_dataframe_def guard
        using main [of df1] by (auto simp: prepared time_index)
    next
      case True
      then obtain d where d: "sti = Some d" "d \<noteq> []" by auto
      with keys have sub: "fst ` set d \<subseteq> fst ` set (columns df1)" by simp
      obtain out d' where items: "check_secondary_items es df1 d = (out, d')"
        by (cases "check_secondary_items es df1 d")
      from conflict check_secondary_items_established [OF _ time_index(1) c_col sub, of es t]
      have out: "out = Returned es \<or> out = Raised TypeError es"
        by (simp add: items)
      have set_sti: "set_secondary_time_index es df1 sti =
          (case out of
             Raised e es' \<Rightarrow> (Raised e es', df1)
           | Returned es' \<Rightarrow>
               (Returned es', df1\<lparr>meta_secondary_time_index := Some (Some d')\<rparr>))"
        using d by (simp add: set_secondary_time_index_def check_secondary_time_index_def
            items split: outcome.splits)
      from out show ?thesis
      proof
        assume "out = Raised TypeError es"
        then show ?thesis
          unfolding add_dataframe_def guard
          using True by (simp add: prepared set_sti)
      next
        assume "out = Returned es"
        then show ?thesis
          unfolding add_dataframe_def guard
          using True main [of "df1\<lparr>meta_secondary_time_index := Some (Some d')\<rparr>"]
          by (simp add: prepared set_sti time_index)
      qed
    qed
  next
    assume first: "time_type es = None \<and> (sti = None \<or> sti = Some [])
      \<and> meta_secondary_time_index df1 = None"
    then have "check_uniform_time_index es df1 None = Returned (es\<lparr>time_type := Some t'\<rparr>)"
      using time_index by (simp add: check_uniform_time_index_first)
    then have "add_dataframe ww_init es dataframe_id dataframe hints sti =
        Returned (reset_data_description ((es\<lparr>time_type := Some t'\<rparr>)
          \<lparr>dataframe_dict := AList.update dataframe_id df1 (dataframe_dict es)\<rparr>))"
      unfolding add_dataframe_def guard
      using first
      by (auto simp: prepared time_index check_secondary_time_index_def)
    then show "\<exists>es'. add_dataframe ww_init es dataframe_id dataframe hints sti = Returned es'
                  \<and> time_type es' = Some t'
                  \<and> map_of (dataframe_dict es') dataframe_id = Some df1"
      by (simp add: reset_data_description_def update_conv')
  qed
qed

text \<open>
  The scenario of C7: \<open>visits\<close>, with a datetime time index, is registered first, which
  records the classification; \<open>ticks\<close>, with a numeric time index, is refused, with and
  without a secondary time index.
\<close>

theorem time_type_scenario:
  "(\<exists>es1. add_dataframe ww_init_unused empty_es ''visits'' ex_visits () None = Returned es1
      \<and> time_type es1 = Some Datetime
      \<and> map_of (dataframe_dict es1) ''visits'' = Some ex_visits
      \<and> add_dataframe ww_init_unused es1 ''ticks'' ex_ticks () None = Raised TypeError es1
      \<and> add_dataframe ww_init_unused es1 ''ticks'' ex_ticks () (Some [(''id'', [])])
          = Raised TypeError es1)"
proof -
  have hyps1: "dataframe_dict empty_es = []
      \<or> engine ex_visits = engine (snd (hd (dataframe_dict empty_es)))"
    "ww_prepare ww_init_unused ''visits'' () ex_visits = Inr ex_visits"
    "ww_time_index ex_visits = Some ''visit_time''"
    "map_of (columns ex_visits) ''visit_time'' = Some datetime_column"
    "time_check datetime_column = Some Datetime"
    "case None of None \<Rightarrow> True
     | Some d \<Rightarrow> fst ` set d \<subseteq> fst ` set (columns ex_visits)"
    by (simp_all add: empty_es_def ww_prepare_def ex_visits_def datetime_column_def)
  from time_type_conflict [OF hyps1, of Numeric] obtain es1 where
    es1: "add_dataframe ww_init_unused empty_es ''visits'' ex_visits () None = Returned es1"
      "time_type es1 = Some Datetime" "map_of (dataframe_dict es1) ''visits'' = Some ex_visits"
    by (auto simp: empty_es_def ex_visits_def)
  have first: "dataframe_dict es1 = [(''visits'', ex_visits)]"
    using es1(1)
    by (simp add: add_dataframe_def ww_prepare_def check_uniform_time_index_def
        get_time_type_def check_secondary_time_index_def ex_visits_def datetime_column_def
        int_column_def empty_es_def reset_data_description_def)
      auto
  have hyps2: "dataframe_dict es1 = []
      \<or> engine ex_ticks = engine (snd (hd (dataframe_dict es1)))"
    "ww_prepare ww_init_unused ''ticks'' () ex_ticks = Inr ex_ticks"
    "ww_time_index ex_ticks = Some ''tick''"
    "map_of (columns ex_ticks) ''tick'' = Some int_column"
    "time_check int_column = Some Numeric"
    by (simp_all add: first ww_prepare_def ex_ticks_def ex_visits_def int_column_def)
  have keys2: "case None of None \<Rightarrow> True
     | Some d \<Rightarrow> fst ` set d \<subseteq> fst ` set (columns ex_ticks)"
    "case Some [(''id'', [])] of None \<Rightarrow> True
     | Some d \<Rightarrow> fst ` set d \<subseteq> fst ` set (columns ex_ticks)"
    by (simp_all add: ex_ticks_def)
  from time_type_conflict [OF hyps2 keys2(1), of Datetime] es1(2)
  have "add_dataframe ww_init_unused es1 ''ticks'' ex_ticks () None = Raised TypeError es1"
    by simp
  moreover from time_type_conflict [OF hyps2 keys2(2), of Datetime] es1(2)
  have "add_dataframe ww_init_unused es1 ''ticks'' ex_ticks () (Some [(''id'', [])])
      = Raised TypeError es1"
    by simp
  ultimately show ?thesis using es1 by blast
qed

section \<open>Properties of the argument checks of normalize_dataframe\<close>

lemma or_empty_list_cases:
  assumes "or_empty_list h v = (h', v')"
  shows "(\<exists>a. v' = PyList a \<and> a < length h' \<and> (h' = h \<or> h' = h @ [[]])
            \<and> h' ! a = (case arg_list h v of Some xs \<Rightarrow> xs | None \<Rightarrow> [])
            \<and> v \<noteq> PyOther True)
         \<or> (v = PyOther True \<and> v' = PyOther True \<and> h' = h)"
proof (cases v)
  case PyNone
  with assms show ?thesis by (auto simp: or_empty_list_def arg_list_def)
next
  case (PyList a)
  with assms show ?thesis
    by (cases "a < length h \<and> h ! a \<noteq> []")
      (auto simp: or_empty_list_def arg_list_def nth_append)
next
  case (PyOther b)
  with assms show ?thesis by (cases b) (auto simp: or_empty_list_def arg_list_def)
qed

lemma arg_list_extend:
  assumes "arg_list h v = Some xs" "h' = h \<or> h' = h @ [[]]"
  shows "arg_list h' v = Some xs"
proof (cases v)
  case (PyList a)
  with assms show ?thesis by (auto simp: arg_list_def nth_append split: if_splits)
qed (use assms in \<open>simp_all add: arg_list_def\<close>)

lemma duplicates_iff: "length xs \<noteq> card (set xs) \<longleftrightarrow> \<not> distinct xs"
  using card_distinct [of xs] distinct_card [of xs] by auto

lemma normalize_validate_lists:
  assumes "map_of (dataframe_dict es) b = Some base"
    and "or_empty_list h ad = (h1, PyList a)"
    and "or_empty_list h1 cp = (h2, PyList c)"
  shows "normalize_validate es h b i ad cp mti =
     (case validate_lists base i (h2 ! a) (h2 ! c) mti of
        Some e \<Rightarrow> (Inl e, h2)
      | None \<Rightarrow> (Inr (base, a, c), h2))"
  unfolding normalize_validate_def validate_lists_def
  by (simp only: assms option.case prod.case pyval.case if_distrib [of "case_option _ _"]
      cong: if_cong)


lemma validate_lists_error: "validate_lists base i xs ys mti = Some e \<Longrightarrow> e = ValueError"
  by (simp add: validate_lists_def split: if_splits)

lemma validate_lists_passes:
  assumes "validate_lists base i xs ys mti = None"
  shows "distinct xs" "distinct ys" "i \<notin> set xs" "i \<notin> set ys"
    "ww_time_index base = Some t \<Longrightarrow> t \<notin> set xs" "ww_index base \<noteq> Some i"
proof -
  from assms have 1: "length xs = card (set xs)" and 2: "length ys = card (set ys)"
    and 3: "i \<notin> set (xs @ ys)"
    and 4: "\<not> (case ww_time_index base of Some t \<Rightarrow> t \<in> set xs | None \<Rightarrow> False)"
    and 5: "ww_index base \<noteq> Some i"
    by (simp_all add: validate_lists_def split: if_splits)
  from 1 show "distinct xs" by (simp add: card_distinct)
  from 2 show "distinct ys" by (simp add: card_distinct)
  from 3 show "i \<notin> set xs" "i \<notin> set ys" by simp_all
  from 4 show "ww_time_index base = Some t \<Longrightarrow> t \<notin> set xs" by simp
  from 5 show "ww_index base \<noteq> Some i" .
qed

lemma normalize_validate_not_list:
  assumes "map_of (dataframe_dict es) b = Some base"
    and "or_empty_list h ad = (h1, ad')" "or_empty_list h1 cp = (h2, cp')"
    and "ad' = PyOther True \<or> cp' = PyOther True"
  shows "\<exists>e. normalize_validate es h b i ad cp mti = (Inl e, h2)
            \<and> (e = ValueError \<or> e = TypeError)"
proof (cases ad')
  case PyNone
  then show ?thesis
    unfolding normalize_validate_def by (simp add: assms(1-3))
next
  case (PyOther t)
  then show ?thesis
    unfolding normalize_validate_def by (simp add: assms(1-3))
next
  case (PyList a)
  with assms(4) have "cp' = PyOther True" by simp
  with PyList show ?thesis
    unfolding normalize_validate_def by (simp add: assms(1-3))
qed


text \<open>
  C8, as the code has it. The base table is registered. When the new index is the index
  of the base table, or is in the list \<^verbatim>\<open>additional_columns\<close> or \<^verbatim>\<open>copy_columns\<close>, or
  one of these lists has a duplicate, or one of the two arguments is a truthy value that
  is not a list, or the time index of the base table is in \<^verbatim>\<open>additional_columns\<close>, then
  \<^verbatim>\<open>normalize_dataframe\<close> raises \<^verbatim>\<open>ValueError\<close> or \<^verbatim>\<open>TypeError\<close>, the entity set is as
  it was, and so are the lists of the caller.
\<close>

theorem normalize_rejects:
  assumes base: "map_of (dataframe_dict es) base_id = Some base"
    and bad: "ww_index base = Some index
      \<or> additional = PyOther True \<or> copy = PyOther True
      \<or> (\<exists>xs. arg_list h additional = Some xs
            \<and> (index \<in> set xs \<or> \<not> distinct xs \<or> ww_time_index base \<in> Some ` set xs))
      \<or> (\<exists>ys. arg_list h copy = Some ys \<and> (index \<in> set ys \<or> \<not> distinct ys))"
  shows "\<exists>e h'. normalize_dataframe remainder es h base_id new_id index additional copy mti ntti
              = (Raised e es, h')
            \<and> (e = ValueError \<or> e = TypeError) \<and> take (length h) h' = h"
proof -
  obtain h1 ad' where 1: "or_empty_list h additional = (h1, ad')"
    by (cases "or_empty_list h additional")
  obtain h2 cp' where 2: "or_empty_list h1 copy = (h2, cp')"
    by (cases "or_empty_list h1 copy")
  have ext1: "h1 = h \<or> h1 = h @ [[]]" using or_empty_list_cases [OF 1] by auto
  have ext2: "h2 = h1 \<or> h2 = h1 @ [[]]" using or_empty_list_cases [OF 2] by auto
  from ext1 ext2 have heap: "take (length h) h2 = h" by auto
  have "\<exists>e. normalize_validate es h base_id index additional copy mti = (Inl e, h2)
            \<and> (e = ValueError \<or> e = TypeError)"
  proof (cases "ad' = PyOther True \<or> cp' = PyOther True")
    case True
    then show ?thesis by (rule normalize_validate_not_list [OF base 1 2])
  next
    case False
    with or_empty_list_cases [OF 1] obtain a where a: "ad' = PyList a" "a < length h1"
      "h1 ! a = (case arg_list h additional of Some xs \<Rightarrow> xs | None \<Rightarrow> [])"
      "additional \<noteq> PyOther True"
      by auto
    from False or_empty_list_cases [OF 2] obtain c where c: "cp' = PyList c"
      "h2 ! c = (case arg_list h1 copy of Some ys \<Rightarrow> ys | None \<Rightarrow> [])"
      "copy \<noteq> PyOther True"
      by auto
    have a2: "h2 ! a = h1 ! a"
      using a(2) ext2 by (auto simp: nth_append)
    have ad_contents: "h2 ! a = xs" if "arg_list h additional = Some xs" for xs
      using that a2 a(3) by simp
    have cp_contents: "h2 ! c = ys" if "arg_list h copy = Some ys" for ys
      using arg_list_extend [OF that ext1] c(2) by simp
    have nf: "normalize_validate es h base_id index additional copy mti =
       (case validate_lists base index (h2 ! a) (h2 ! c) mti of
          Some e \<Rightarrow> (Inl e, h2)
        | None \<Rightarrow> (Inr (base, a, c), h2))"
      using 1 2 by (simp add: normalize_validate_lists [OF base] a(1) c(1))
    have "validate_lists base index (h2 ! a) (h2 ! c) mti \<noteq> None"
    proof
      assume none: "validate_lists base index (h2 ! a) (h2 ! c) mti = None"
      note p = validate_lists_passes [OF none]
      from bad a(4) c(3) consider "ww_index base = Some index"
        | xs where "arg_list h additional = Some xs"
            "index \<in> set xs \<or> \<not> distinct xs \<or> ww_time_index base \<in> Some ` set xs"
        | ys where "arg_list h copy = Some ys" "index \<in> set ys \<or> \<not> distinct ys"
        by blast
      then show False
      proof cases
        case 1
        with p(6) show False by simp
      next
        case 2
        from ad_contents [OF 2(1)] have "h2 ! a = xs" .
        with p(1,3,5) 2(2) show False by auto
      next
        case 3
        from cp_contents [OF 3(1)] have "h2 ! c = ys" .
        with p(2,4) 3(2) show False by auto
      qed
    qed
    then obtain e where e: "validate_lists base index (h2 ! a) (h2 ! c) mti = Some e"
      by auto
    with validate_lists_error [OF e] nf show ?thesis by simp
  qed
  then obtain e where "normalize_validate es h base_id index additional copy mti = (Inl e, h2)"
    "e = ValueError \<or> e = TypeError"
    by blast
  then have "normalize_dataframe remainder es h base_id new_id index additional copy mti ntti
      = (Raised e es, h2) \<and> (e = ValueError \<or> e = TypeError)"
    by (simp add: normalize_dataframe_def normalize_checks_def)
  with heap show ?thesis by blast
qed





lemmas normalize_eval = normalize_dataframe_def normalize_checks_def normalize_validate_def
  normalize_time_index_def or_empty_list_def ex_transactions_es_def ex_transactions_def
  int_column_def object_column_def datetime_column_def remainder_reached_def
  raised_def state_of_def Let_def

theorem normalize_rejects_witness:
  "\<exists>e h'. normalize_dataframe remainder_reached ex_transactions_es [[''device'', ''device'']]
             ''transactions'' ''sessions'' ''session_id'' (PyList 0) PyNone (MtiBool False) None
           = (Raised e ex_transactions_es, h')
         \<and> (e = ValueError \<or> e = TypeError)
         \<and> take (length [[''device'', ''device'']]) h' = [[''device'', ''device'']]"
proof (rule normalize_rejects [where base = ex_transactions])
  show "map_of (dataframe_dict ex_transactions_es) ''transactions'' = Some ex_transactions"
    by (simp add: ex_transactions_es_def)
  have "arg_list [[''device'', ''device'']] (PyList 0) = Some [''device'', ''device'']"
    by (simp add: arg_list_def)
  then show "ww_index ex_transactions = Some ''session_id''
      \<or> PyList 0 = PyOther True \<or> PyNone = PyOther True
      \<or> (\<exists>xs. arg_list [[''device'', ''device'']] (PyList 0) = Some xs
            \<and> (''session_id'' \<in> set xs \<or> \<not> distinct xs
                \<or> ww_time_index ex_transactions \<in> Some ` set xs))
      \<or> (\<exists>ys. arg_list [[''device'', ''device'']] PyNone = Some ys
            \<and> (''session_id'' \<in> set ys \<or> \<not> distinct ys))"
    by simp
qed

text \<open>
  C8 as stated fails for an argument that is not a list and falsy, such as an empty tuple:
  \<^verbatim>\<open>additional_columns or []\<close> replaces it by a new empty list before the test of
  \<^verbatim>\<open>isinstance\<close>, the checks pass and the call goes on to build the new table.
\<close>

theorem falsy_non_list_counterexample:
  "raised (fst (normalize_dataframe remainder_reached ex_transactions_es [] ''transactions''
      ''sessions'' ''session_id'' (PyOther False) PyNone (MtiBool False) None)) = None
   \<and> map_sum id additional_columns
        (fst (normalize_checks ex_transactions_es [] ''transactions'' ''session_id''
           (PyOther False) PyNone (MtiBool False) None)) = Inr []"
  by (simp add: normalize_eval)




end
